theory Spec2Isabelle
  imports Complex_Main "HOL-Library.AList" "HOL-Library.Multiset"
    "HOL-Library.Char_ord" "HOL-Library.List_Lexorder"
begin

section \<open>Values and dictionaries\<close>

text \<open>
  Fact values are Python objects. The planner stores \<^verbatim>\<open>None\<close>, booleans, integers and
  strings (the catalog uses \<^verbatim>\<open>True\<close> and \<^verbatim>\<open>None\<close>; the caller seeds strings and numbers
  taken from the classified intent). Floating point values are left out of the model.
\<close>

datatype pyval = PyNone | PyBool bool | PyInt int | PyStr string

text \<open>
  Python's \<^verbatim>\<open>==\<close> on these objects: \<^verbatim>\<open>bool\<close> is a subclass of \<^verbatim>\<open>int\<close>, so
  \<^verbatim>\<open>True == 1\<close> and \<^verbatim>\<open>False == 0\<close>; values of different kinds are unequal otherwise.
  \<^verbatim>\<open>a != b\<close> is the negation.
\<close>

fun py_eq :: "pyval \<Rightarrow> pyval \<Rightarrow> bool" where
  "py_eq PyNone PyNone = True"
| "py_eq (PyBool a) (PyBool b) = (a = b)"
| "py_eq (PyBool a) (PyInt j) = ((if a then 1 else 0) = j)"
| "py_eq (PyInt i) (PyBool b) = (i = (if b then 1 else 0))"
| "py_eq (PyInt i) (PyInt j) = (i = j)"
| "py_eq (PyStr s) (PyStr t) = (s = t)"
| "py_eq _ _ = False"

text \<open>
  A \<^verbatim>\<open>dict\<close> with string keys is an association list in insertion order; a dictionary
  built by Python never repeats a key. \<^verbatim>\<open>d[k] = v\<close> is \<^const>\<open>AList.update\<close>
  (an existing key keeps its place, a new key goes last), \<^verbatim>\<open>del d[k]\<close> is
  \<^const>\<open>AList.delete\<close>, \<^verbatim>\<open>d.get(k)\<close> is \<^const>\<open>map_of\<close>.
\<close>

type_synonym dict = "(string \<times> pyval) list"

definition dict_has :: "dict \<Rightarrow> string \<Rightarrow> bool" where
  "dict_has d k = (k \<in> fst ` set d)"

definition dict_get :: "dict \<Rightarrow> string \<Rightarrow> pyval \<Rightarrow> pyval" where
  "dict_get d k dflt = (case map_of d k of None \<Rightarrow> dflt | Some v \<Rightarrow> v)"

text \<open>
  \<^verbatim>\<open>d1 == d2\<close> on dictionaries: the same number of entries, and every key of the left one
  is in the right one with an equal value.
\<close>

definition dict_eq :: "dict \<Rightarrow> dict \<Rightarrow> bool" where
  "dict_eq d1 d2 =
     (length d1 = length d2 \<and>
      (\<forall>(k, v) \<in> set d1. case map_of d2 k of None \<Rightarrow> False | Some w \<Rightarrow> py_eq v w))"

section \<open>State (state\_manager.py)\<close>

record state =
  facts :: dict
  goals :: "string set"

definition has_fact :: "state \<Rightarrow> string \<Rightarrow> bool" where
  "has_fact s fact_name = dict_has (facts s) fact_name"

definition get_fact :: "state \<Rightarrow> string \<Rightarrow> pyval \<Rightarrow> pyval" where
  "get_fact s fact_name dflt = dict_get (facts s) fact_name dflt"

definition set_fact :: "state \<Rightarrow> string \<Rightarrow> pyval \<Rightarrow> state" where
  "set_fact s fact_name v = s\<lparr>facts := AList.update fact_name v (facts s)\<rparr>"

definition remove_fact :: "state \<Rightarrow> string \<Rightarrow> state" where
  "remove_fact s fact_name =
     (if dict_has (facts s) fact_name then s\<lparr>facts := AList.delete fact_name (facts s)\<rparr>
      else s)"

definition add_goal :: "state \<Rightarrow> string \<Rightarrow> state" where
  "add_goal s goal = s\<lparr>goals := insert goal (goals s)\<rparr>"

definition remove_goal :: "state \<Rightarrow> string \<Rightarrow> state" where
  "remove_goal s goal = s\<lparr>goals := goals s - {goal}\<rparr>"

definition has_goal :: "state \<Rightarrow> string \<Rightarrow> bool" where
  "has_goal s goal = (goal \<in> goals s)"

text \<open>
  \<^verbatim>\<open>self.has_fact(goal) and self.get_fact(goal) is True\<close>: the identity test with the
  singleton \<^verbatim>\<open>True\<close> holds for the boolean only, not for \<^verbatim>\<open>1\<close> or \<^verbatim>\<open>"true"\<close>.
\<close>

definition is_goal_satisfied :: "state \<Rightarrow> string \<Rightarrow> bool" where
  "is_goal_satisfied s goal = (has_fact s goal \<and> get_fact s goal PyNone = PyBool True)"

definition all_goals_satisfied :: "state \<Rightarrow> bool" where
  "all_goals_satisfied s = (\<forall>goal \<in> goals s. is_goal_satisfied s goal)"

text \<open>
  \<^verbatim>\<open>copy\<close> builds a new object from a deep copy of the facts and a copy of the goals;
  as a value it has the same entries.
\<close>

definition copy :: "state \<Rightarrow> state" where
  "copy s = \<lparr>facts = map (\<lambda>(k, v). (k, v)) (facts s), goals = goals s\<rparr>"

definition state_eq :: "state \<Rightarrow> state \<Rightarrow> bool" where
  "state_eq s t = (dict_eq (facts s) (facts t) \<and> goals s = goals t)"

text \<open>
  \<^verbatim>\<open>__hash__\<close> hashes the pair of the fact items sorted (the keys differ, so the order
  is the order of the keys) and the sorted goals. The hash function of tuples is a parameter.
\<close>

definition hash_key :: "state \<Rightarrow> (string \<times> pyval) list \<times> string list" where
  "hash_key s = (sort_key fst (facts s), sorted_list_of_set (goals s))"

definition state_hash :: "((string \<times> pyval) list \<times> string list \<Rightarrow> int) \<Rightarrow> state \<Rightarrow> int" where
  "state_hash H s = H (hash_key s)"

section \<open>Actions (knowledge\_base.py)\<close>

record action =
  name :: string
  parameters :: "string list"
  preconditions :: dict
  effects :: dict
  cost :: rat
  execution_time :: rat
  dependencies :: "string list"
  api_endpoint :: string
  description :: string

subsection \<open>StateManager\<close>

fun set_facts :: "dict \<Rightarrow> state \<Rightarrow> state" where
  "set_facts [] new_state = new_state"
| "set_facts ((fact_name, fact_value) # rest) new_state =
     set_facts rest (set_fact new_state fact_name fact_value)"

definition apply_action_effects :: "action \<Rightarrow> state \<Rightarrow> state" where
  "apply_action_effects act s = set_facts (effects act) (copy s)"

fun check_items :: "dict \<Rightarrow> state \<Rightarrow> bool" where
  "check_items [] s = True"
| "check_items ((fact_name, required_value) # rest) s =
     (if \<not> has_fact s fact_name then False
      else if \<not> py_eq (get_fact s fact_name PyNone) required_value then False
      else check_items rest s)"

definition check_preconditions :: "action \<Rightarrow> state \<Rightarrow> bool" where
  "check_preconditions act s = check_items (preconditions act) s"

fun generate_successor_states :: "state \<Rightarrow> action list \<Rightarrow> (state \<times> action) list" where
  "generate_successor_states s [] = []"
| "generate_successor_states s (act # available_actions) =
     (if check_preconditions act s
      then (apply_action_effects act s, act) # generate_successor_states s available_actions
      else generate_successor_states s available_actions)"

subsection \<open>KnowledgeBase\<close>

fun kb_check_items :: "dict \<Rightarrow> dict \<Rightarrow> bool" where
  "kb_check_items [] st = True"
| "kb_check_items ((fact_name, required_value) # rest) st =
     (if \<not> dict_has st fact_name then False
      else if \<not> py_eq (dict_get st fact_name PyNone) required_value then False
      else kb_check_items rest st)"

definition kb_check_preconditions :: "action \<Rightarrow> dict \<Rightarrow> bool" where
  "kb_check_preconditions act st = kb_check_items (preconditions act) st"

fun kb_set_effects :: "dict \<Rightarrow> dict \<Rightarrow> dict" where
  "kb_set_effects [] new_state = new_state"
| "kb_set_effects ((fact_name, fact_value) # rest) new_state =
     kb_set_effects rest
       (if fact_value = PyNone then AList.update fact_name (PyBool True) new_state
        else AList.update fact_name fact_value new_state)"

definition apply_effects :: "action \<Rightarrow> dict \<Rightarrow> dict" where
  "apply_effects act st = kb_set_effects (effects act) st"

definition estimate_action_cost :: "action \<Rightarrow> rat" where
  "estimate_action_cost act = cost act + execution_time act * (1 / 10)"

text \<open>The built-in catalog of \<^verbatim>\<open>_initialize_actions\<close>.\<close>

definition CheckWeather :: action where
  "CheckWeather = \<lparr>name = ''CheckWeather'', parameters = [''location''],
     preconditions = [(''location_valid'', PyBool True)],
     effects = [(''weather_known'', PyBool True), (''weather_location'', PyNone)],
     cost = 1, execution_time = 2, dependencies = [],
     api_endpoint = ''weather_service'',
     description = ''Check weather conditions for a location''\<rparr>"

definition SendEmail :: action where
  "SendEmail = \<lparr>name = ''SendEmail'', parameters = [''recipient'', ''subject'', ''body''],
     preconditions = [(''recipient_valid'', PyBool True), (''email_content_ready'', PyBool True)],
     effects = [(''email_sent'', PyBool True)],
     cost = 2, execution_time = 3, dependencies = [],
     api_endpoint = ''email_service'',
     description = ''Send an email to a recipient''\<rparr>"

definition BookHotel :: action where
  "BookHotel = \<lparr>name = ''BookHotel'', parameters = [''location'', ''check_in'', ''check_out'', ''guests''],
     preconditions = [(''location_valid'', PyBool True), (''dates_valid'', PyBool True)],
     effects = [(''hotel_booked'', PyBool True)],
     cost = 5, execution_time = 10, dependencies = [''CheckWeather''],
     api_endpoint = ''hotel_service'',
     description = ''Book a hotel room''\<rparr>"

definition SetReminder :: action where
  "SetReminder = \<lparr>name = ''SetReminder'', parameters = [''datetime'', ''message''],
     preconditions = [(''datetime_valid'', PyBool True)],
     effects = [(''reminder_set'', PyBool True)],
     cost = 1, execution_time = 1, dependencies = [],
     api_endpoint = ''reminder_service'',
     description = ''Set a reminder or alarm''\<rparr>"

definition SearchFlights :: action where
  "SearchFlights = \<lparr>name = ''SearchFlights'', parameters = [''origin'', ''destination'', ''date''],
     preconditions = [(''origin_valid'', PyBool True), (''destination_valid'', PyBool True), (''date_valid'', PyBool True)],
     effects = [(''flights_found'', PyBool True)],
     cost = 3, execution_time = 5, dependencies = [],
     api_endpoint = ''flight_service'',
     description = ''Search for flight options''\<rparr>"

definition CreateCalendarEvent :: action where
  "CreateCalendarEvent = \<lparr>name = ''CreateCalendarEvent'', parameters = [''title'', ''datetime'', ''duration''],
     preconditions = [(''datetime_valid'', PyBool True), (''title_provided'', PyBool True)],
     effects = [(''calendar_event_created'', PyBool True)],
     cost = 3 / 2, execution_time = 2, dependencies = [],
     api_endpoint = ''calendar_service'',
     description = ''Create a calendar event''\<rparr>"

definition PlanTrip :: action where
  "PlanTrip = \<lparr>name = ''PlanTrip'', parameters = [''location'', ''date'', ''duration''],
     preconditions = [(''location_valid'', PyBool True), (''date_valid'', PyBool True)],
     effects = [(''trip_planned'', PyBool True)],
     cost = 8, execution_time = 15, dependencies = [''CheckWeather'', ''SearchFlights'', ''BookHotel''],
     api_endpoint = ''trip_planning_service'',
     description = ''Plan a multi-step trip''\<rparr>"

definition CheckAttendance :: action where
  "CheckAttendance = \<lparr>name = ''CheckAttendance'', parameters = [],
     preconditions = [],
     effects = [(''attendance_known'', PyBool True)],
     cost = 2, execution_time = 3, dependencies = [],
     api_endpoint = ''erp_service'',
     description = ''Check overall student attendance records''\<rparr>"

definition CheckSubjectAttendance :: action where
  "CheckSubjectAttendance = \<lparr>name = ''CheckSubjectAttendance'', parameters = [''subject''],
     preconditions = [],
     effects = [(''subject_attendance_known'', PyBool True)],
     cost = 3 / 2, execution_time = 2, dependencies = [],
     api_endpoint = ''erp_service'',
     description = ''Check attendance for a specific subject''\<rparr>"

definition CheckMonthlyAttendance :: action where
  "CheckMonthlyAttendance = \<lparr>name = ''CheckMonthlyAttendance'', parameters = [],
     preconditions = [],
     effects = [(''monthly_attendance_known'', PyBool True)],
     cost = 3 / 2, execution_time = 2, dependencies = [],
     api_endpoint = ''erp_service'',
     description = ''Check this month's attendance''\<rparr>"

definition CheckTimetable :: action where
  "CheckTimetable = \<lparr>name = ''CheckTimetable'', parameters = [''date''],
     preconditions = [],
     effects = [(''timetable_known'', PyBool True)],
     cost = 2, execution_time = 3, dependencies = [],
     api_endpoint = ''erp_service'',
     description = ''Check full class timetable or schedule''\<rparr>"

definition CheckSubjectSchedule :: action where
  "CheckSubjectSchedule = \<lparr>name = ''CheckSubjectSchedule'', parameters = [''subject''],
     preconditions = [],
     effects = [(''subject_schedule_known'', PyBool True)],
     cost = 3 / 2, execution_time = 2, dependencies = [],
     api_endpoint = ''erp_service'',
     description = ''Find when a specific subject is scheduled''\<rparr>"

definition CheckTimeSchedule :: action where
  "CheckTimeSchedule = \<lparr>name = ''CheckTimeSchedule'', parameters = [''time''],
     preconditions = [],
     effects = [(''time_schedule_known'', PyBool True)],
     cost = 3 / 2, execution_time = 2, dependencies = [],
     api_endpoint = ''erp_service'',
     description = ''Find what subject is scheduled at a specific time''\<rparr>"

definition CheckCafeteriaMenu :: action where
  "CheckCafeteriaMenu = \<lparr>name = ''CheckCafeteriaMenu'', parameters = [],
     preconditions = [],
     effects = [(''cafeteria_menu_known'', PyBool True)],
     cost = 3 / 2, execution_time = 2, dependencies = [],
     api_endpoint = ''erp_service'',
     description = ''Check full cafeteria or mess menu''\<rparr>"

definition CheckBreakfastMenu :: action where
  "CheckBreakfastMenu = \<lparr>name = ''CheckBreakfastMenu'', parameters = [],
     preconditions = [],
     effects = [(''breakfast_menu_known'', PyBool True)],
     cost = 1, execution_time = 2, dependencies = [],
     api_endpoint = ''erp_service'',
     description = ''Check breakfast menu''\<rparr>"

definition CheckLunchMenu :: action where
  "CheckLunchMenu = \<lparr>name = ''CheckLunchMenu'', parameters = [],
     preconditions = [],
     effects = [(''lunch_menu_known'', PyBool True)],
     cost = 1, execution_time = 2, dependencies = [],
     api_endpoint = ''erp_service'',
     description = ''Check lunch menu''\<rparr>"

definition CheckDinnerMenu :: action where
  "CheckDinnerMenu = \<lparr>name = ''CheckDinnerMenu'', parameters = [],
     preconditions = [],
     effects = [(''dinner_menu_known'', PyBool True)],
     cost = 1, execution_time = 2, dependencies = [],
     api_endpoint = ''erp_service'',
     description = ''Check dinner menu''\<rparr>"

definition CheckSnackMenu :: action where
  "CheckSnackMenu = \<lparr>name = ''CheckSnackMenu'', parameters = [],
     preconditions = [],
     effects = [(''snack_menu_known'', PyBool True)],
     cost = 1, execution_time = 2, dependencies = [],
     api_endpoint = ''erp_service'',
     description = ''Check snack menu''\<rparr>"

definition SearchInternet :: action where
  "SearchInternet = \<lparr>name = ''SearchInternet'', parameters = [''query''],
     preconditions = [(''query_valid'', PyBool True)],
     effects = [(''internet_search_complete'', PyBool True)],
     cost = 3, execution_time = 5, dependencies = [],
     api_endpoint = ''perplexity_search'',
     description = ''Search the internet for information''\<rparr>"

definition GenerateAttendancePDF :: action where
  "GenerateAttendancePDF = \<lparr>name = ''GenerateAttendancePDF'', parameters = [],
     preconditions = [],
     effects = [(''attendance_pdf_sent'', PyBool True)],
     cost = 3, execution_time = 5, dependencies = [],
     api_endpoint = ''pdf_service'',
     description = ''Generate and send attendance PDF report''\<rparr>"

definition GenerateTimetablePDF :: action where
  "GenerateTimetablePDF = \<lparr>name = ''GenerateTimetablePDF'', parameters = [''date''],
     preconditions = [],
     effects = [(''timetable_pdf_sent'', PyBool True)],
     cost = 3, execution_time = 5, dependencies = [],
     api_endpoint = ''pdf_service'',
     description = ''Generate and send timetable PDF report''\<rparr>"

definition GenerateCafeteriaPDF :: action where
  "GenerateCafeteriaPDF = \<lparr>name = ''GenerateCafeteriaPDF'', parameters = [],
     preconditions = [],
     effects = [(''cafeteria_pdf_sent'', PyBool True)],
     cost = 3, execution_time = 5, dependencies = [],
     api_endpoint = ''pdf_service'',
     description = ''Generate and send cafeteria menu PDF report''\<rparr>"

definition Greeting :: action where
  "Greeting = \<lparr>name = ''Greeting'', parameters = [],
     preconditions = [],
     effects = [(''greeting_responded'', PyBool True)],
     cost = 1 / 2, execution_time = 1, dependencies = [],
     api_endpoint = ''openai_conversation'',
     description = ''Respond to greetings naturally''\<rparr>"

definition SmallTalk :: action where
  "SmallTalk = \<lparr>name = ''SmallTalk'', parameters = [],
     preconditions = [],
     effects = [(''smalltalk_responded'', PyBool True)],
     cost = 1 / 2, execution_time = 1, dependencies = [],
     api_endpoint = ''openai_conversation'',
     description = ''Engage in casual conversation''\<rparr>"

definition Conversation :: action where
  "Conversation = \<lparr>name = ''Conversation'', parameters = [],
     preconditions = [],
     effects = [(''conversation_responded'', PyBool True)],
     cost = 1, execution_time = 2, dependencies = [],
     api_endpoint = ''openai_conversation'',
     description = ''Handle nuanced conversations''\<rparr>"

definition initialize_actions :: "action list" where
  "initialize_actions =
     [CheckWeather, SendEmail, BookHotel, SetReminder,
      SearchFlights, CreateCalendarEvent, PlanTrip, CheckAttendance,
      CheckSubjectAttendance, CheckMonthlyAttendance, CheckTimetable, CheckSubjectSchedule,
      CheckTimeSchedule, CheckCafeteriaMenu, CheckBreakfastMenu, CheckLunchMenu,
      CheckDinnerMenu, CheckSnackMenu, SearchInternet, GenerateAttendancePDF,
      GenerateTimetablePDF, GenerateCafeteriaPDF, Greeting, SmallTalk,
      Conversation]"

definition get_available_actions :: "action list \<Rightarrow> action list" where
  "get_available_actions actions = map (\<lambda>a. a) actions"

section \<open>The priority queue (heapq)\<close>

text \<open>
  A search node. \<^verbatim>\<open>f_cost\<close> is set once by the constructor to \<^verbatim>\<open>g_cost + h_cost\<close>
  and no field is assigned afterwards, so it is a function of the other two. Costs are
  rational numbers: the rounding of floating point arithmetic is not modelled.
\<close>

datatype node =
  Node (state: state) (parent: "node option") (action: "action option") (g_cost: rat) (h_cost: rat)

definition f_cost :: "node \<Rightarrow> rat" where
  "f_cost n = g_cost n + h_cost n"

definition node_lt :: "node \<Rightarrow> node \<Rightarrow> bool" where
  "node_lt a b = (f_cost a < f_cost b)"

text \<open>
  The open set is a Python list kept as a binary heap by the standard library:
  \<^verbatim>\<open>_siftdown\<close> moves a hole from \<open>pos\<close> towards \<open>startpos\<close> while the new item is
  smaller than the parent, \<^verbatim>\<open>_siftup\<close> moves the hole down along the smaller children to
  a leaf and then sifts the item down from there.
\<close>

function siftdown_loop :: "node list \<Rightarrow> nat \<Rightarrow> nat \<Rightarrow> node \<Rightarrow> node list \<times> nat" where
  "siftdown_loop heap startpos pos newitem =
     (if pos > startpos then
        (if node_lt newitem (heap ! ((pos - 1) div 2))
         then siftdown_loop (heap[pos := heap ! ((pos - 1) div 2)]) startpos ((pos - 1) div 2) newitem
         else (heap, pos))
      else (heap, pos))"
  by pat_completeness auto
termination
  by (relation "measure (\<lambda>(heap, startpos, pos, newitem). pos)") auto

definition siftdown :: "node list \<Rightarrow> nat \<Rightarrow> nat \<Rightarrow> node list" where
  "siftdown heap startpos pos =
     (case siftdown_loop heap startpos pos (heap ! pos) of
        (heap', pos') \<Rightarrow> heap'[pos' := heap ! pos])"

definition smaller_child :: "node list \<Rightarrow> nat \<Rightarrow> nat \<Rightarrow> nat" where
  "smaller_child heap endpos childpos =
     (if childpos + 1 < endpos \<and> \<not> node_lt (heap ! childpos) (heap ! (childpos + 1))
      then childpos + 1 else childpos)"

function siftup_loop :: "node list \<Rightarrow> nat \<Rightarrow> nat \<Rightarrow> node list \<times> nat" where
  "siftup_loop heap endpos pos =
     (if 2 * pos + 1 < endpos then
        siftup_loop (heap[pos := heap ! smaller_child heap endpos (2 * pos + 1)]) endpos
          (smaller_child heap endpos (2 * pos + 1))
      else (heap, pos))"
  by pat_completeness auto
termination
  by (relation "measure (\<lambda>(heap, endpos, pos). endpos - pos)")
    (auto simp: smaller_child_def)

definition siftup :: "node list \<Rightarrow> nat \<Rightarrow> node list" where
  "siftup heap pos =
     (case siftup_loop heap (length heap) pos of
        (heap', pos') \<Rightarrow> siftdown (heap'[pos' := heap ! pos]) pos pos')"

definition heappush :: "node list \<Rightarrow> node \<Rightarrow> node list" where
  "heappush heap item = siftdown (heap @ [item]) 0 (length heap)"

text \<open>\<^verbatim>\<open>heappop\<close> raises \<^verbatim>\<open>IndexError\<close> on an empty list: the result \<open>None\<close>.\<close>

definition heappop :: "node list \<Rightarrow> (node \<times> node list) option" where
  "heappop heap =
     (if heap = [] then None
      else if butlast heap \<noteq> []
        then Some (hd heap, siftup ((butlast heap)[0 := last heap]) 0)
        else Some (last heap, []))"

definition heapify :: "node list \<Rightarrow> node list" where
  "heapify x = fold (\<lambda>i heap. siftup heap i) (rev [0..<length x div 2]) x"

section \<open>The planner (astar\_planner.py)\<close>

definition calculate_heuristic :: "state \<Rightarrow> state \<Rightarrow> rat" where
  "calculate_heuristic s goal_state =
     of_nat (card {goal \<in> goals goal_state. \<not> is_goal_satisfied s goal}) * (3 / 2) * 2"

definition is_goal_reached :: "state \<Rightarrow> state \<Rightarrow> bool" where
  "is_goal_reached s goal_state =
     (if goals goal_state = {} then False
      else (\<forall>goal \<in> goals goal_state. is_goal_satisfied s goal))"

text \<open>
  \<^verbatim>\<open>closed_set\<close> and \<^verbatim>\<open>visited_states\<close> are Python sets of states. Membership is
  decided by \<^verbatim>\<open>__eq__\<close> (equal states have equal hashes for the values of the model);
  adding a state that is already a member changes nothing.
\<close>

definition state_in :: "state \<Rightarrow> state list \<Rightarrow> bool" where
  "state_in s xs = (\<exists>t \<in> set xs. state_eq t s)"

definition set_add :: "state \<Rightarrow> state list \<Rightarrow> state list" where
  "set_add s xs = (if state_in s xs then xs else xs @ [s])"

text \<open>
  The scan for a queued node with an equal state and a larger \<^verbatim>\<open>f_cost\<close>: the first
  one is overwritten and the scan stops (\<open>None\<close> when there is none).
\<close>

fun replace_better :: "node list \<Rightarrow> node \<Rightarrow> node list option" where
  "replace_better [] new_node = None"
| "replace_better (existing_node # rest) new_node =
     (if state_eq (state existing_node) (state new_node) \<and> f_cost new_node < f_cost existing_node
      then Some (new_node # rest)
      else map_option ((#) existing_node) (replace_better rest new_node))"

fun expand ::
  "state \<Rightarrow> node \<Rightarrow> state list \<Rightarrow> (state \<times> action) list \<Rightarrow> node list \<times> state list
    \<Rightarrow> node list \<times> state list" where
  "expand goal_state current_node closed_set [] (open_set, visited_states) =
     (open_set, visited_states)"
| "expand goal_state current_node closed_set ((new_state, act) # successors)
       (open_set, visited_states) =
     (if state_in new_state closed_set
      then expand goal_state current_node closed_set successors (open_set, visited_states)
      else
        (let new_node = Node new_state (Some current_node) (Some act)
               (g_cost current_node + estimate_action_cost act)
               (calculate_heuristic new_state goal_state)
         in if \<not> state_in new_state visited_states
            then expand goal_state current_node closed_set successors
                   (heappush open_set new_node, set_add new_state visited_states)
            else (case replace_better open_set new_node of
                    Some open_set' \<Rightarrow>
                      expand goal_state current_node closed_set successors
                        (heapify open_set', visited_states)
                  | None \<Rightarrow>
                      expand goal_state current_node closed_set successors
                        (open_set, visited_states))))"

text \<open>
  The three ways \<^verbatim>\<open>plan\<close> returns, with the iteration counter and the open set the loop
  ended with; \<open>IndexError\<close> is the exception of a pop from an empty heap.
\<close>

datatype outcome =
  GoalAlreadySatisfied
  | PlanFound node int
  | NoPlanFound int "node list"
  | IndexError

function search ::
  "action list \<Rightarrow> state \<Rightarrow> node list \<Rightarrow> state list \<Rightarrow> state list \<Rightarrow> int \<Rightarrow> int \<Rightarrow> outcome" where
  "search actions goal_state open_set closed_set visited_states iteration max_iterations =
     (if open_set \<noteq> [] \<and> iteration < max_iterations then
        (case heappop open_set of
           None \<Rightarrow> IndexError
         | Some (current_node, open_set') \<Rightarrow>
             if is_goal_reached (state current_node) goal_state
             then PlanFound current_node (iteration + 1)
             else
               (case expand goal_state current_node (set_add (state current_node) closed_set)
                       (generate_successor_states (state current_node)
                          (get_available_actions actions))
                       (open_set', visited_states) of
                  (open_set'', visited_states') \<Rightarrow>
                    search actions goal_state open_set''
                      (set_add (state current_node) closed_set) visited_states'
                      (iteration + 1) max_iterations))
      else NoPlanFound iteration open_set)"
  by pat_completeness auto
termination
  by (relation "measure (\<lambda>(actions, goal_state, open_set, closed_set, visited_states,
        iteration, max_iterations). nat (max_iterations - iteration))") auto

definition plan_outcome :: "action list \<Rightarrow> state \<Rightarrow> state \<Rightarrow> int \<Rightarrow> outcome" where
  "plan_outcome actions current_state goal_state max_iterations =
     (if is_goal_reached current_state goal_state then GoalAlreadySatisfied
      else search actions goal_state
             [Node (copy current_state) None None 0
                (calculate_heuristic current_state goal_state)]
             [] [copy current_state] 0 max_iterations)"

text \<open>
  \<^verbatim>\<open>reconstruct_path\<close> walks the parent links and puts each action in front of the path.
  Every action of the model is a dictionary with entries, so \<^verbatim>\<open>if current.action\<close>
  fails only where there is no action.
\<close>

fun reconstruct_loop :: "node \<Rightarrow> action list \<Rightarrow> action list" where
  "reconstruct_loop (Node s None act g h) path = path"
| "reconstruct_loop (Node s (Some p) None g h) path = reconstruct_loop p path"
| "reconstruct_loop (Node s (Some p) (Some a) g h) path = reconstruct_loop p (a # path)"

definition reconstruct_path :: "node \<Rightarrow> action list" where
  "reconstruct_path goal_node = reconstruct_loop goal_node []"

text \<open>What \<^verbatim>\<open>plan\<close> returns: a list of actions, empty at two of the three returns.\<close>

definition plan :: "action list \<Rightarrow> state \<Rightarrow> state \<Rightarrow> int \<Rightarrow> action list option" where
  "plan actions current_state goal_state max_iterations =
     (case plan_outcome actions current_state goal_state max_iterations of
        GoalAlreadySatisfied \<Rightarrow> Some []
      | PlanFound current_node iteration \<Rightarrow> Some (reconstruct_path current_node)
      | NoPlanFound iteration open_set \<Rightarrow> Some []
      | IndexError \<Rightarrow> None)"

fun validate_loop :: "action list \<Rightarrow> state \<Rightarrow> bool" where
  "validate_loop [] current_state = True"
| "validate_loop (act # rest) current_state =
     (if \<not> check_preconditions act current_state then False
      else validate_loop rest (apply_action_effects act current_state))"

definition validate_plan :: "action list \<Rightarrow> state \<Rightarrow> bool" where
  "validate_plan pl initial_state = validate_loop pl (copy initial_state)"

section \<open>Notions used by the proofs\<close>

text \<open>
  A node is well formed for an initial state when its chain of parents ends in a root that
  holds a copy of that state and every link applies an action whose preconditions hold in
  the parent's state.
\<close>

fun wf_node :: "state \<Rightarrow> node \<Rightarrow> bool" where
  "wf_node s0 (Node s None act g h) = (s = copy s0)"
| "wf_node s0 (Node s (Some p) None g h) = False"
| "wf_node s0 (Node s (Some p) (Some a) g h) =
     (wf_node s0 p \<and> check_preconditions a (state p) \<and> s = apply_action_effects a (state p))"

text \<open>The number of passes through the loop that an outcome reports.\<close>

definition iterations_of :: "outcome \<Rightarrow> int" where
  "iterations_of r =
     (case r of GoalAlreadySatisfied \<Rightarrow> 0 | PlanFound n k \<Rightarrow> k | NoPlanFound k os \<Rightarrow> k
      | IndexError \<Rightarrow> 0)"

text \<open>The states of the scenarios A, B and C and their goal.\<close>

definition scenario_a :: state where
  "scenario_a = \<lparr>facts = [], goals = {}\<rparr>"

definition scenario_b :: state where
  "scenario_b = \<lparr>facts = [(''location_valid'', PyBool True), (''location'', PyStr ''Pune'')],
     goals = {}\<rparr>"

definition scenario_c :: state where
  "scenario_c = \<lparr>facts = [(''weather_known'', PyBool True)], goals = {}\<rparr>"

definition weather_goal :: state where
  "weather_goal = \<lparr>facts = [], goals = {''weather_known''}\<rparr>"

declare siftdown_loop.simps [simp del] siftup_loop.simps [simp del] search.simps [simp del]


section \<open>Goal satisfaction\<close>

lemma dict_has_map_of: "dict_has d k \<longleftrightarrow> map_of d k \<noteq> None"
  by (simp add: dict_has_def map_of_eq_None_iff)

text \<open>
  C4. \<^verbatim>\<open>is_goal_satisfied(g)\<close> is true exactly when the facts contain the key \<open>g\<close> with the
  boolean \<^verbatim>\<open>True\<close> as its value; the string \<^verbatim>\<open>"true"\<close>, and any other value that is not
  the boolean, does not satisfy the goal.
\<close>

theorem is_goal_satisfied_iff:
  "(is_goal_satisfied s g \<longleftrightarrow> map_of (facts s) g = Some (PyBool True)) \<and>
   (map_of (facts s) g = Some v \<and> v \<noteq> PyBool True \<longrightarrow> \<not> is_goal_satisfied s g)"
  by (auto simp: is_goal_satisfied_def has_fact_def get_fact_def dict_get_def dict_has_map_of
      split: option.splits)

theorem is_goal_satisfied_iff_witness:
  "map_of (facts \<lparr>facts = [(''g'', PyStr ''true'')], goals = {}\<rparr>) ''g'' = Some (PyStr ''true'') \<and>
   PyStr ''true'' \<noteq> PyBool True \<and>
   \<not> is_goal_satisfied \<lparr>facts = [(''g'', PyStr ''true'')], goals = {}\<rparr> ''g'' \<and>
   is_goal_satisfied \<lparr>facts = [(''g'', PyBool True)], goals = {}\<rparr> ''g''"
  using is_goal_satisfied_iff [of "\<lparr>facts = [(''g'', PyStr ''true'')], goals = {}\<rparr>" "''g''" "PyStr ''true''"]
    is_goal_satisfied_iff [of "\<lparr>facts = [(''g'', PyBool True)], goals = {}\<rparr>" "''g''" "PyNone"]
  by simp


section \<open>The heap operations keep the elements\<close>

lemma siftdown_loop_props:
  "pos < length heap \<Longrightarrow> siftdown_loop heap startpos pos x = (h', p') \<Longrightarrow>
     length h' = length heap \<and> p' \<le> pos \<and> mset (h'[p' := x]) = mset (heap[pos := x])"
proof (induction heap startpos pos x arbitrary: h' p' rule: siftdown_loop.induct)
  case (1 heap startpos pos newitem)
  let ?par = "(pos - 1) div 2"
  show ?case
  proof (cases "pos > startpos \<and> node_lt newitem (heap ! ?par)")
    case True
    then have ppos: "?par < pos" by auto
    from True "1.prems"(2) have rec:
      "siftdown_loop (heap[pos := heap ! ?par]) startpos ?par newitem = (h', p')"
      by (simp add: siftdown_loop.simps [of heap])
    from ppos "1.prems"(1) have plen: "?par < length (heap[pos := heap ! ?par])" by simp
    from "1.IH" [OF _ _ plen rec] True
    have ih: "length h' = length heap" "p' \<le> ?par"
      "mset (h'[p' := newitem]) = mset (heap[pos := heap ! ?par, ?par := newitem])"
      by auto
    let ?L = "heap[pos := newitem]"
    have "heap[pos := heap ! ?par, ?par := newitem] = ?L[pos := ?L ! ?par, ?par := ?L ! pos]"
      using ppos "1.prems"(1) by simp
    also have "mset \<dots> = mset ?L"
      using ppos "1.prems"(1) by (intro mset_swap) auto
    finally show ?thesis using ih ppos by simp
  next
    case False
    with "1.prems"(2) have "h' = heap" "p' = pos"
      by (auto simp: siftdown_loop.simps [of heap] split: if_splits)
    then show ?thesis by simp
  qed
qed

lemma mset_siftdown: "pos < length heap \<Longrightarrow> mset (siftdown heap startpos pos) = mset heap"
  by (auto simp: siftdown_def split: prod.splits dest!: siftdown_loop_props)

lemma length_siftdown: "pos < length heap \<Longrightarrow> length (siftdown heap startpos pos) = length heap"
  by (auto simp: siftdown_def split: prod.splits dest!: siftdown_loop_props)

lemma smaller_child_range:
  "c < endpos \<Longrightarrow> smaller_child heap endpos c < endpos \<and> c \<le> smaller_child heap endpos c"
  by (simp add: smaller_child_def)

lemma siftup_loop_props:
  "pos < length heap \<Longrightarrow> siftup_loop heap (length heap) pos = (h', p') \<Longrightarrow>
     length h' = length heap \<and> pos \<le> p' \<and> p' < length heap \<and>
     mset (h'[p' := x]) = mset (heap[pos := x])"
proof (induction heap "length heap" pos arbitrary: h' p' rule: siftup_loop.induct)
  case (1 heap pos)
  let ?c = "smaller_child heap (length heap) (2 * pos + 1)"
  show ?case
  proof (cases "2 * pos + 1 < length heap")
    case True
    then have c: "?c < length heap" "pos < ?c"
      using smaller_child_range [of "2 * pos + 1" "length heap" heap] by auto
    from True "1.prems"(2) have rec:
      "siftup_loop (heap[pos := heap ! ?c]) (length (heap[pos := heap ! ?c])) ?c = (h', p')"
      by (simp add: siftup_loop.simps [of heap])
    from c have clen: "?c < length (heap[pos := heap ! ?c])" by simp
    from "1.hyps" [OF True _ clen rec]
    have ih: "length h' = length heap" "?c \<le> p'" "p' < length heap"
      "mset (h'[p' := x]) = mset (heap[pos := heap ! ?c, ?c := x])"
      by auto
    let ?L = "heap[pos := x]"
    have "heap[pos := heap ! ?c, ?c := x] = ?L[pos := ?L ! ?c, ?c := ?L ! pos]"
      using c "1.prems"(1) by simp
    also have "mset \<dots> = mset ?L"
      using c "1.prems"(1) by (intro mset_swap) auto
    finally show ?thesis using ih c by simp
  next
    case False
    with "1.prems"(2) have "h' = heap" "p' = pos"
      by (auto simp: siftup_loop.simps [of heap])
    then show ?thesis using "1.prems"(1) by simp
  qed
qed

lemma mset_siftup: "pos < length heap \<Longrightarrow> mset (siftup heap pos) = mset heap"
proof -
  assume p: "pos < length heap"
  obtain h' p' where l: "siftup_loop heap (length heap) pos = (h', p')" by force
  from siftup_loop_props [OF p l, of "heap ! pos"] p
  have "length h' = length heap" "p' < length heap" "mset (h'[p' := heap ! pos]) = mset heap"
    by auto
  then show ?thesis using l by (simp add: siftup_def mset_siftdown)
qed


lemma mset_heappush: "mset (heappush heap item) = add_mset item (mset heap)"
  by (simp add: heappush_def mset_siftdown)

lemma set_heappush: "set (heappush heap item) = insert item (set heap)"
  using mset_heappush [of heap item] by (metis set_mset_add_mset_insert set_mset_mset)

lemma heappop_Some:
  assumes "heap \<noteq> []"
  shows "\<exists>r. heappop heap = Some (hd heap, r) \<and> add_mset (hd heap) (mset r) = mset heap"
proof (cases "butlast heap = []")
  case True
  with assms have "heap = [hd heap]" "last heap = hd heap"
    by (cases heap; cases "tl heap"; auto split: if_splits)+
  with True assms show ?thesis by (simp add: heappop_def)
next
  case False
  let ?b = "butlast heap"
  from False have len: "0 < length ?b" by (cases "butlast heap") auto
  have "mset (siftup (?b[0 := last heap]) 0) = mset (?b[0 := last heap])"
    using len by (simp add: mset_siftup)
  also have "\<dots> = add_mset (last heap) (mset ?b - {#?b ! 0#})"
    using len by (simp add: mset_update)
  finally have m: "mset (siftup (?b[0 := last heap]) 0) = add_mset (last heap) (mset ?b - {#?b ! 0#})" .
  have hd: "?b ! 0 = hd heap" using False assms
    by (cases heap) (auto simp: nth_butlast hd_conv_nth)
  have "?b ! 0 \<in># mset ?b" using len by simp
  then have "add_mset (hd heap) (add_mset (last heap) (mset ?b - {#?b ! 0#})) = add_mset (last heap) (mset ?b)"
    using hd by simp
  also have "\<dots> = mset (?b @ [last heap])" by simp
  also have "\<dots> = mset heap" using assms by simp
  finally show ?thesis using False assms m by (simp add: heappop_def)
qed

lemma heappop_set:
  assumes "heappop heap = Some (x, r)"
  shows "x \<in> set heap \<and> set r \<subseteq> set heap"
proof -
  from assms have ne: "heap \<noteq> []" by (auto simp: heappop_def split: if_splits)
  from heappop_Some [OF ne] assms have "add_mset x (mset r) = mset heap" by auto
  then have "insert x (set r) = set heap"
    by (metis set_mset_add_mset_insert set_mset_mset)
  then show ?thesis by auto
qed

lemma fold_siftup_mset:
  "\<forall>i \<in> set is. i < length heap \<Longrightarrow>
     mset (fold (\<lambda>i h. siftup h i) is heap) = mset heap \<and>
     length (fold (\<lambda>i h. siftup h i) is heap) = length heap"
proof (induction "is" arbitrary: heap)
  case Nil
  then show ?case by simp
next
  case (Cons i "is")
  then have i: "i < length heap" by simp
  have l: "length (siftup heap i) = length heap"
    using mset_siftup [OF i] by (metis size_mset)
  from Cons.IH [of "siftup heap i"] Cons.prems l mset_siftup [OF i]
  show ?case by simp
qed

lemma mset_heapify: "mset (heapify x) = mset x"
  unfolding heapify_def by (rule fold_siftup_mset [THEN conjunct1]) auto

lemma set_heapify: "set (heapify x) = set x"
  using mset_heapify [of x] by (metis set_mset_mset)


lemma copy_id: "copy s = s"
  by (simp add: copy_def)

lemma replay_wf:
  "wf_node s0 n \<Longrightarrow>
     validate_loop (reconstruct_loop n path) (copy s0) = validate_loop path (state n)"
  by (induction n path rule: reconstruct_loop.induct) auto

lemma reconstruct_loop_length: "length path \<le> length (reconstruct_loop n path)"
  by (induction n path rule: reconstruct_loop.induct) auto

lemma successor_sound:
  "(s', a) \<in> set (generate_successor_states s acts) \<Longrightarrow>
     a \<in> set acts \<and> check_preconditions a s \<and> s' = apply_action_effects a s"
  by (induction acts) (auto split: if_splits)

lemma replace_better_set:
  "replace_better os new_node = Some os' \<Longrightarrow> set os' \<subseteq> insert new_node (set os)"
  by (induction os arbitrary: os') (auto split: if_splits)

lemma expand_wf:
  assumes "wf_node s0 cur"
    and "\<forall>(s', a) \<in> set succs. check_preconditions a (state cur) \<and> s' = apply_action_effects a (state cur)"
    and "\<forall>n \<in> set os. wf_node s0 n"
  shows "\<forall>n \<in> set (fst (expand goal cur closed_set succs (os, vis))). wf_node s0 n"
  using assms(2,3)
proof (induction succs arbitrary: os vis)
  case Nil
  then show ?case by simp
next
  case (Cons sa succs)
  obtain s' a where sa: "sa = (s', a)" by (cases sa)
  let ?n = "Node s' (Some cur) (Some a) (g_cost cur + estimate_action_cost a) (calculate_heuristic s' goal)"
  from Cons.prems(1) sa assms(1) have wfn: "wf_node s0 ?n" by simp
  from Cons.prems(1) have rest: "\<forall>(s', a) \<in> set succs. check_preconditions a (state cur) \<and> s' = apply_action_effects a (state cur)"
    by simp
  have push: "\<forall>n \<in> set (heappush os ?n). wf_node s0 n"
    using wfn Cons.prems(2) by (simp add: set_heappush)
  have repl: "\<forall>n \<in> set (heapify os'). wf_node s0 n" if "replace_better os ?n = Some os'" for os'
    using replace_better_set [OF that] wfn Cons.prems(2) by (auto simp: set_heapify)
  show ?case
    using Cons.IH [OF rest Cons.prems(2)] Cons.IH [OF rest push] Cons.IH [OF rest repl]
    by (auto simp: sa Let_def split: option.splits)
qed

lemma search_found:
  "\<forall>n \<in> set os. wf_node s0 n \<Longrightarrow>
   search acts goal os closed_set vis it mx = PlanFound n k \<Longrightarrow>
     wf_node s0 n \<and> is_goal_reached (state n) goal"
proof (induction acts goal os closed_set vis it mx rule: search.induct)
  case (1 acts goal os closed_set vis it mx)
  from "1.prems"(2) have guard: "os \<noteq> [] \<and> it < mx"
    by (auto simp: search.simps [of acts goal os] split: if_splits)
  then obtain cur os1 where pop: "heappop os = Some (cur, os1)"
    using heappop_Some [of os] by auto
  from heappop_set [OF pop] "1.prems"(1) have cur: "wf_node s0 cur" and os1: "\<forall>n \<in> set os1. wf_node s0 n"
    by auto
  show ?case
  proof (cases "is_goal_reached (state cur) goal")
    case True
    with "1.prems"(2) guard pop have "n = cur"
      by (simp add: search.simps [of acts goal os])
    with True cur show ?thesis by simp
  next
    case False
    let ?closed = "set_add (state cur) closed_set"
    let ?succ = "generate_successor_states (state cur) (get_available_actions acts)"
    obtain os2 vis2 where ex: "expand goal cur ?closed ?succ (os1, vis) = (os2, vis2)"
      by force
    have "\<forall>n \<in> set (fst (expand goal cur ?closed ?succ (os1, vis))). wf_node s0 n"
      by (rule expand_wf [OF cur _ os1]) (auto dest: successor_sound)
    with ex have os2: "\<forall>n \<in> set os2. wf_node s0 n" by simp
    from "1.prems"(2) guard pop False ex
    have "search acts goal os2 ?closed vis2 (it + 1) mx = PlanFound n k"
      by (simp add: search.simps [of acts goal os])
    from "1.IH" [OF guard pop refl False ex [symmetric] os2 this]
    show ?thesis .
  qed
qed


lemma search_cases:
  "(\<exists>n k. search acts goal os closed_set vis it mx = PlanFound n k \<and> it < k \<and> k \<le> mx) \<or>
   (\<exists>k os'. search acts goal os closed_set vis it mx = NoPlanFound k os' \<and> it \<le> k \<and>
      (k \<le> mx \<or> k = it) \<and> (os' = [] \<or> mx \<le> k))"
proof (induction acts goal os closed_set vis it mx rule: search.induct)
  case (1 acts goal os closed_set vis it mx)
  show ?case
  proof (cases "os \<noteq> [] \<and> it < mx")
    case False
    then show ?thesis by (auto simp: search.simps [of acts goal os])
  next
    case guard: True
    then obtain cur os1 where pop: "heappop os = Some (cur, os1)"
      using heappop_Some [of os] by auto
    show ?thesis
    proof (cases "is_goal_reached (state cur) goal")
      case True
      with guard pop show ?thesis by (simp add: search.simps [of acts goal os])
    next
      case False
      let ?closed = "set_add (state cur) closed_set"
      obtain os2 vis2 where ex: "expand goal cur ?closed
          (generate_successor_states (state cur) (get_available_actions acts)) (os1, vis) = (os2, vis2)"
        by force
      from guard pop False ex
      have eq: "search acts goal os closed_set vis it mx = search acts goal os2 ?closed vis2 (it + 1) mx"
        by (simp add: search.simps [of acts goal os])
      from "1.IH" [OF guard pop refl False ex [symmetric]] guard
      show ?thesis unfolding eq by auto
    qed
  qed
qed

lemma search_no_goal:
  "goals goal = {} \<Longrightarrow> \<exists>k os'. search acts goal os closed_set vis it mx = NoPlanFound k os'"
proof (induction acts goal os closed_set vis it mx rule: search.induct)
  case (1 acts goal os closed_set vis it mx)
  show ?case
  proof (cases "os \<noteq> [] \<and> it < mx")
    case False
    then show ?thesis by (auto simp: search.simps [of acts goal os])
  next
    case guard: True
    then obtain cur os1 where pop: "heappop os = Some (cur, os1)"
      using heappop_Some [of os] by auto
    from "1.prems" have ng: "\<not> is_goal_reached (state cur) goal"
      by (simp add: is_goal_reached_def)
    let ?closed = "set_add (state cur) closed_set"
    obtain os2 vis2 where ex: "expand goal cur ?closed
        (generate_successor_states (state cur) (get_available_actions acts)) (os1, vis) = (os2, vis2)"
      by force
    from guard pop ng ex
    have eq: "search acts goal os closed_set vis it mx = search acts goal os2 ?closed vis2 (it + 1) mx"
      by (simp add: search.simps [of acts goal os])
    from "1.IH" [OF guard pop refl ng ex [symmetric] "1.prems"]
    show ?thesis unfolding eq .
  qed
qed



section \<open>Effects and preconditions\<close>

lemma map_of_set_facts:
  "map_of (facts (set_facts eff st)) = map_of (facts st) ++ map_of (rev eff)"
proof (induction eff arbitrary: st)
  case Nil
  then show ?case by simp
next
  case (Cons kv eff)
  obtain k v where kv: "kv = (k, v)" by (cases kv)
  have "map_of (facts (set_fact st k v)) = (map_of (facts st))(k \<mapsto> v)"
    by (simp add: set_fact_def update_conv')
  then show ?case
    by (simp add: kv Cons.IH map_add_upd_left [symmetric] del: map_add_upd_left)
      (simp add: map_add_def fun_eq_iff split: option.splits)
qed

lemma goals_set_facts: "goals (set_facts eff st) = goals st"
  by (induction eff arbitrary: st) (auto simp: set_fact_def)

lemma facts_apply_action_effects:
  "map_of (facts (apply_action_effects act s)) = map_of (facts s) ++ map_of (rev (effects act))"
  by (simp add: apply_action_effects_def map_of_set_facts copy_id)

lemma effects_are_set:
  "(k, v) \<in> set (effects act) \<Longrightarrow> has_fact (apply_action_effects act s) k"
  by (force simp: has_fact_def dict_has_map_of facts_apply_action_effects map_add_Some_iff
      map_of_eq_None_iff)

text \<open>
  C3. The effect application the planner uses is \<^verbatim>\<open>StateManager.apply_action_effects\<close>. It
  sets every effect fact, with the declared value as it is: after \<^verbatim>\<open>CheckWeather\<close> the fact
  \<^verbatim>\<open>weather_location\<close> is \<^verbatim>\<open>None\<close>, not \<^verbatim>\<open>True\<close>, in every state, and so it does not count
  as a satisfied goal. Only \<^verbatim>\<open>KnowledgeBase.apply_effects\<close>, which the planner never calls,
  turns the placeholder into \<^verbatim>\<open>True\<close>.
\<close>

theorem apply_action_effects_placeholder:
  "map_of (facts (apply_action_effects CheckWeather s)) ''weather_location'' = Some PyNone \<and>
   \<not> is_goal_satisfied (apply_action_effects CheckWeather s) ''weather_location'' \<and>
   map_of (apply_effects CheckWeather (facts s)) ''weather_location'' = Some (PyBool True)"
  by (simp add: facts_apply_action_effects is_goal_satisfied_def has_fact_def get_fact_def
      dict_get_def dict_has_map_of CheckWeather_def apply_effects_def update_conv')

lemma check_items_iff:
  "check_items pre s \<longleftrightarrow> (\<forall>(k, v) \<in> set pre. \<exists>w. map_of (facts s) k = Some w \<and> py_eq w v)"
  by (induction pre s rule: check_items.induct)
    (auto simp: has_fact_def get_fact_def dict_get_def dict_has_map_of)

text \<open>
  C5, as the code has it. \<^verbatim>\<open>check_preconditions(action, state)\<close> is true exactly when every
  precondition fact is present in \<^verbatim>\<open>state.facts\<close> with a value that Python's \<^verbatim>\<open>==\<close> finds
  equal to the required one; one missing fact or one unequal value makes it false. Under
  \<^verbatim>\<open>==\<close> the integer \<^verbatim>\<open>1\<close> equals \<^verbatim>\<open>True\<close> and \<^verbatim>\<open>0\<close> equals \<^verbatim>\<open>False\<close>.
\<close>

theorem check_preconditions_iff:
  "check_preconditions act s \<longleftrightarrow>
     (\<forall>(k, v) \<in> set (preconditions act). \<exists>w. map_of (facts s) k = Some w \<and> py_eq w v)"
  by (simp add: check_preconditions_def check_items_iff)

theorem check_preconditions_iff_witness:
  "check_preconditions CheckWeather scenario_b \<and>
   \<not> check_preconditions CheckWeather scenario_a"
  using check_preconditions_iff [of CheckWeather scenario_b]
    check_preconditions_iff [of CheckWeather scenario_a]
  by (simp add: CheckWeather_def scenario_b_def scenario_a_def)

text \<open>
  C5 as stated fails: with the fact \<^verbatim>\<open>location_valid\<close> stored as the integer \<^verbatim>\<open>1\<close> the
  preconditions of \<^verbatim>\<open>CheckWeather\<close> pass, although the stored value is not the required
  value \<^verbatim>\<open>True\<close>.
\<close>

theorem check_preconditions_exact_counterexample:
  "\<not> (check_preconditions CheckWeather \<lparr>facts = [(''location_valid'', PyInt 1)], goals = {}\<rparr> \<longleftrightarrow>
      (\<forall>(k, v) \<in> set (preconditions CheckWeather).
         map_of (facts \<lparr>facts = [(''location_valid'', PyInt 1)], goals = {}\<rparr>) k = Some v))"
  by (simp add: CheckWeather_def check_preconditions_def has_fact_def get_fact_def
      dict_has_def dict_get_def)


section \<open>How plan returns\<close>

lemma plan_outcome_cases:
  "(is_goal_reached s g \<and> plan_outcome acts s g mx = GoalAlreadySatisfied) \<or>
   (\<not> is_goal_reached s g \<and>
      ((\<exists>n k. plan_outcome acts s g mx = PlanFound n k \<and> 0 < k \<and> k \<le> mx) \<or>
       (\<exists>k os. plan_outcome acts s g mx = NoPlanFound k os \<and> 0 \<le> k \<and> (k \<le> mx \<or> k = 0) \<and>
          (os = [] \<or> mx \<le> k))))"
proof (cases "is_goal_reached s g")
  case True
  then show ?thesis by (simp add: plan_outcome_def)
next
  case False
  let ?root = "Node (copy s) None None 0 (calculate_heuristic s g)"
  from False have "plan_outcome acts s g mx = search acts g [?root] [] [copy s] 0 mx"
    by (simp add: plan_outcome_def)
  with False search_cases [of acts g "[?root]" "[]" "[copy s]" 0 mx] show ?thesis
    by auto
qed

text \<open>
  C8. \<^verbatim>\<open>plan\<close> always returns a list: the loop makes at most \<^verbatim>\<open>max_iterations\<close> passes
  (none when the bound is not positive), since a pass needs \<^verbatim>\<open>iteration < max_iterations\<close>
  and adds one to \<^verbatim>\<open>iteration\<close>; the pop never meets an empty heap.
\<close>

theorem plan_terminates:
  "(\<exists>pl. plan acts s g mx = Some pl) \<and>
   plan_outcome acts s g mx \<noteq> IndexError \<and>
   0 \<le> iterations_of (plan_outcome acts s g mx) \<and>
   iterations_of (plan_outcome acts s g mx) \<le> max 0 mx"
  using plan_outcome_cases [of s g acts mx]
  by (auto simp: plan_def iterations_of_def)

theorem plan_terminates_witness:
  "plan [CheckWeather] scenario_a weather_goal 1000 = Some [] \<and>
   iterations_of (plan_outcome [CheckWeather] scenario_a weather_goal 1000) \<le> 1000"
proof -
  have "plan_outcome [CheckWeather] scenario_a weather_goal 1000 = NoPlanFound 1 []"
    by (simp add: plan_outcome_def is_goal_reached_def is_goal_satisfied_def has_fact_def
        dict_has_def scenario_a_def weather_goal_def search.simps heappop_def copy_def
        get_available_actions_def CheckWeather_def check_preconditions_def set_add_def
        state_in_def)
  with plan_terminates [of "[CheckWeather]" scenario_a weather_goal 1000]
  show ?thesis by (simp add: plan_def)
qed

end
